theory Spec2Isabelle
  imports Main
begin

section \<open>Session store: \<open>src/stores/slices/authSlice.ts\<close>\<close>

text \<open>
  The store is created by \<open>create<AuthStore>()(devtools(persist(config, options)))\<close>.
  The state part of the store is the interface \<open>AuthState\<close>; the three actions are
  modelled as functions on the store. The interface \<open>User\<close> (\<open>@/types/api/user\<close>) is not
  among the sources, so a user is an object with arbitrary field names: a finite map from
  field name to field value, the type of the values being a parameter. The values stand
  for JSON values (strings, numbers, booleans, \<open>null\<close>, arrays, objects), which the JSON
  text in the storage gives back as they are.
\<close>

type_synonym 'v User = "string \<rightharpoonup> 'v"

record 'v AuthState =
  user :: "'v User option"
  isAuthenticated :: bool
  token :: "string option"

text \<open>
  The argument of zustand's \<open>set\<close> is a partial state: an object holding some of the keys
  of the state. A key that is absent is \<open>None\<close>; a key that is present holds a value of the
  key's type (for \<open>user\<close> and \<open>token\<close> that value may be \<open>null\<close>, the inner \<open>None\<close>).
\<close>

record 'v PartialState =
  user_key :: "'v User option option"
  isAuthenticated_key :: "bool option"
  token_key :: "string option option"

text \<open>\<open>set(partial)\<close> replaces the state by \<open>Object.assign({}, state, partial)\<close>.\<close>

definition set_state :: "'v PartialState \<Rightarrow> 'v AuthState \<Rightarrow> 'v AuthState" where
  "set_state partial s =
     \<lparr> user = (case user_key partial of None \<Rightarrow> user s | Some u \<Rightarrow> u),
       isAuthenticated = (case isAuthenticated_key partial of None \<Rightarrow> isAuthenticated s | Some b \<Rightarrow> b),
       token = (case token_key partial of None \<Rightarrow> token s | Some t \<Rightarrow> t) \<rparr>"

text \<open>The state the store is configured with: \<open>user: null, isAuthenticated: false, token: null\<close>.\<close>

definition initialState :: "'v AuthState" where
  "initialState = \<lparr> user = None, isAuthenticated = False, token = None \<rparr>"

subsection \<open>The \<open>persist\<close> middleware as configured\<close>

text \<open>
  The options given are \<open>name: 'auth-storage'\<close> and \<open>partialize\<close>; every other option of
  the middleware (zustand 4.4) keeps its default: \<open>version\<close> is 0, \<open>storage\<close> is JSON on
  \<open>localStorage\<close>, \<open>merge\<close> is \<open>(persisted, current) => ({...current, ...persisted})\<close>, and
  there is neither \<open>migrate\<close> nor \<open>onRehydrateStorage\<close>.

  What is kept under the key is the JSON text of \<open>{state, version}\<close>. The text itself is not
  modelled. The item under the key is one of these:
  \<^item> absent;
  \<^item> a text on which \<open>JSON.parse\<close> throws;
  \<^item> a text that parses to an object with a \<open>state\<close> object and a \<open>version\<close> that is a number
    (taken as an integer);
  \<^item> a text that parses to an object with a \<open>state\<close> object and a \<open>version\<close> that is missing
    or not a number;
  \<^item> a text that parses to any other value (a primitive, an array, an object with no
    \<open>state\<close> object), from which no key of the state can be taken.

  Of a stored \<open>state\<close> the model keeps the three keys of the state, and takes the values
  under them to be of the types of the state.
\<close>

record 'v StorageValue =
  sv_state :: "'v PartialState"
  sv_version :: int

datatype 'v item =
  NoItem | Unparsable | Item "'v StorageValue" | UnversionedItem "'v PartialState"
  | StatelessItem

record 'v Store =
  session :: "'v AuthState"
  localStorage :: "'v item"

text \<open>\<open>partialize: (state) => ({ token: state.token, user: state.user })\<close>\<close>

definition partialize :: "'v AuthState \<Rightarrow> 'v PartialState" where
  "partialize s =
     \<lparr> user_key = Some (user s), isAuthenticated_key = None, token_key = Some (token s) \<rparr>"

text \<open>\<open>setItem\<close>: the middleware writes \<open>{state: partialize({...get()}), version}\<close>.\<close>

definition setItem :: "'v AuthState \<Rightarrow> 'v item" where
  "setItem s = Item \<lparr> sv_state = partialize s, sv_version = 0 \<rparr>"

text \<open>
  The \<open>set\<close> that the middleware hands to the store's configuration: the plain \<open>set\<close>
  followed by \<open>setItem\<close>.
\<close>

definition persist_set :: "'v PartialState \<Rightarrow> 'v Store \<Rightarrow> 'v Store" where
  "persist_set partial store =
     (let s' = set_state partial (session store)
      in \<lparr> session = s', localStorage = setItem s' \<rparr>)"

subsection \<open>Actions\<close>

definition login :: "'v User \<Rightarrow> string \<Rightarrow> 'v Store \<Rightarrow> 'v Store" where
  "login u t store =
     persist_set \<lparr> user_key = Some (Some u), isAuthenticated_key = Some True,
                   token_key = Some (Some t) \<rparr> store"

definition logout :: "'v Store \<Rightarrow> 'v Store" where
  "logout store =
     persist_set \<lparr> user_key = Some None, isAuthenticated_key = Some False,
                   token_key = Some None \<rparr> store"

text \<open>
  \<open>updateUser\<close>: \<open>const currentUser = get().user; if (currentUser) set({user:
  {...currentUser, ...userData}})\<close>. The spread of \<open>userData\<close> over \<open>currentUser\<close> is the
  map \<open>currentUser ++ userData\<close>: every own key of \<open>userData\<close> wins.
\<close>

definition updateUser :: "'v User \<Rightarrow> 'v Store \<Rightarrow> 'v Store" where
  "updateUser userData store =
     (case user (session store) of
        None \<Rightarrow> store
      | Some currentUser \<Rightarrow>
          persist_set \<lparr> user_key = Some (Some (currentUser ++ userData)),
                        isAuthenticated_key = None, token_key = None \<rparr> store)"

subsection \<open>Rehydration when the store is created\<close>

datatype exception = SyntaxError

text \<open>What \<open>JSON.parse\<close> gives for a stored text that parses.\<close>

datatype 'v deserialized =
  Versioned "'v StorageValue" | Unversioned "'v PartialState" | Stateless

text \<open>
  \<open>storage.getItem(name)\<close> of the JSON storage: \<open>null\<close> when there is no item, otherwise
  \<open>JSON.parse\<close> of the text, which throws on a text that is not JSON.
\<close>

definition getItem :: "'v item \<Rightarrow> exception + 'v deserialized option" where
  "getItem it =
     (case it of
        NoItem \<Rightarrow> Inr None
      | Unparsable \<Rightarrow> Inl SyntaxError
      | Item v \<Rightarrow> Inr (Some (Versioned v))
      | UnversionedItem p \<Rightarrow> Inr (Some (Unversioned p))
      | StatelessItem \<Rightarrow> Inr (Some Stateless))"

text \<open>
  The state taken from a stored value. The middleware drops the stored state when
  \<open>typeof version === 'number' && version !== options.version\<close> (there is no \<open>migrate\<close>;
  it logs an error); otherwise it takes \<open>state\<close>, also when the version is missing or not
  a number.
\<close>

definition migratedState :: "'v deserialized option \<Rightarrow> 'v PartialState option" where
  "migratedState d =
     (case d of
        None \<Rightarrow> None
      | Some (Versioned v) \<Rightarrow> if sv_version v \<noteq> 0 then None else Some (sv_state v)
      | Some (Unversioned p) \<Rightarrow> Some p
      | Some Stateless \<Rightarrow> None)"

text \<open>The default \<open>merge\<close>: \<open>{...currentState, ...persistedState}\<close>.\<close>

definition merge :: "'v PartialState option \<Rightarrow> 'v AuthState \<Rightarrow> 'v AuthState" where
  "merge persistedState currentState =
     (case persistedState of None \<Rightarrow> currentState | Some p \<Rightarrow> set_state p currentState)"

text \<open>
  \<open>hydrate\<close>, run once when the store is created. An exception of \<open>getItem\<close> is caught
  by the middleware and the configured state stays; otherwise the merged state replaces
  the state and is written back with \<open>setItem\<close>.
\<close>

definition create :: "'v item \<Rightarrow> 'v Store" where
  "create it =
     (case getItem it of
        Inl e \<Rightarrow> \<lparr> session = initialState, localStorage = it \<rparr>
      | Inr d \<Rightarrow>
          (let s = merge (migratedState d) initialState
           in \<lparr> session = s, localStorage = setItem s \<rparr>))"

text \<open>A restart of the process: the store is created again over the same storage.\<close>

definition restart :: "'v Store \<Rightarrow> 'v Store" where
  "restart store = create (localStorage store)"

text \<open>Sequences of store operations, a restart of the process among them.\<close>

datatype 'v operation =
  LoginOp "'v User" string | LogoutOp | UpdateUserOp "'v User" | RestartOp

fun apply_operation :: "'v operation \<Rightarrow> 'v Store \<Rightarrow> 'v Store" where
  "apply_operation (LoginOp u t) store = login u t store"
| "apply_operation LogoutOp store = logout store"
| "apply_operation (UpdateUserOp userData) store = updateUser userData store"
| "apply_operation RestartOp store = restart store"

fun run :: "'v operation list \<Rightarrow> 'v Store \<Rightarrow> 'v Store" where
  "run [] store = store"
| "run (x # xs) store = run xs (apply_operation x store)"

text \<open>The invariant of the session: the flag says that user and token are both present.\<close>

definition session_invariant :: "'v AuthState \<Rightarrow> bool" where
  "session_invariant s = (isAuthenticated s = (user s \<noteq> None \<and> token s \<noteq> None))"

text \<open>
  The items that the store itself writes: version 0, the keys \<open>user\<close> and \<open>token\<close>
  present, the key \<open>isAuthenticated\<close> absent (the range of \<open>setItem\<close>).
\<close>

definition well_formed :: "'v item \<Rightarrow> bool" where
  "well_formed it =
     (case it of
        Item v \<Rightarrow> sv_version v = 0 \<and> user_key (sv_state v) \<noteq> None
                  \<and> token_key (sv_state v) \<noteq> None \<and> isAuthenticated_key (sv_state v) = None
      | _ \<Rightarrow> False)"

section \<open>Routing: \<open>src/router/AppRouter.tsx\<close>\<close>

text \<open>The pages behind \<open>React.lazy\<close>: each has a loader, run when the page is first rendered.\<close>

datatype page = Dashboard | Users | Settings | Login | NotFound

text \<open>
  The elements that the route table is built from: \<open><Navigate to=... replace />\<close>, a lazy
  page, the two guards around their children, and \<open><Layout />\<close>.
\<close>

datatype element =
    Navigate string bool
  | Lazy page
  | ProtectedRouteEl element
  | PublicRouteEl element
  | LayoutEl

text \<open>
  The guard components. Each reads \<open>isAuthenticated\<close> from the store and returns either a
  \<open>Navigate\<close> to a literal path or its children.
\<close>

definition ProtectedRoute :: "'v AuthState \<Rightarrow> element \<Rightarrow> element" where
  "ProtectedRoute state children =
     (if \<not> isAuthenticated state then Navigate ''/login'' True else children)"

definition PublicRoute :: "'v AuthState \<Rightarrow> element \<Rightarrow> element" where
  "PublicRoute state children =
     (if isAuthenticated state then Navigate ''/dashboard'' True else children)"

text \<open>
  What a render pass produces: a redirect, a mounted lazy page (its loader is invoked),
  the layout around what its outlet shows, or nothing.
\<close>

datatype rendered = Redirect string | Mounted page | LayoutWith rendered | Nothing

text \<open>
  Modelled from the spec: the component \<open>Layout\<close> (\<open>@/components/layout/Layout\<close>) is not
  among the sources. The spec's control flow mounts the target screen of an allowed
  navigation, and the target screens are child routes of the route whose element holds
  \<open>Layout\<close>; so \<open>Layout\<close> is taken to render the matched child route through its outlet.
\<close>

definition Layout :: "rendered \<Rightarrow> rendered" where
  "Layout outlet = LayoutWith outlet"

text \<open>
  Rendering the element of a matched route; \<open>rest\<close> holds the elements of the matched
  child routes, rendered only where an outlet is rendered. A guard is rendered by
  calling its component and rendering what that returns.
\<close>

function render :: "'v AuthState \<Rightarrow> element \<Rightarrow> element list \<Rightarrow> rendered" where
  "render state (Navigate to r) rest = Redirect to"
| "render state (Lazy p) rest = Mounted p"
| "render state (ProtectedRouteEl children) rest =
     render state (ProtectedRoute state children) rest"
| "render state (PublicRouteEl children) rest =
     render state (PublicRoute state children) rest"
| "render state LayoutEl [] = Layout Nothing"
| "render state LayoutEl (e # es) = Layout (render state e es)"
  by pat_completeness auto
termination
  by (relation "measure (\<lambda>(state, e, rest). size e + size_list size rest + length rest)")
     (auto simp: ProtectedRoute_def PublicRoute_def)

declare render.simps(3,4) [simp del]

text \<open>The lazy pages whose loader a render pass invokes.\<close>

fun invoked :: "rendered \<Rightarrow> page list" where
  "invoked (Redirect to) = []"
| "invoked (Mounted p) = [p]"
| "invoked (LayoutWith r) = invoked r"
| "invoked Nothing = []"

text \<open>A \<open><Route>\<close>: its \<open>path\<close> (if any), whether it is an \<open>index\<close> route, its element, its child routes.\<close>

datatype route = Route "string option" bool element "route list"

definition appRoutes :: "route list" where
  "appRoutes =
     [ Route (Some ''/login'') False (PublicRouteEl (Lazy Login)) [],
       Route (Some ''/'') False (ProtectedRouteEl LayoutEl)
         [ Route None True (Navigate ''/dashboard'' True) [],
           Route (Some ''dashboard'') False (Lazy Dashboard) [],
           Route (Some ''users'') False (Lazy Users) [],
           Route (Some ''settings'') False (Lazy Settings) [] ],
       Route (Some ''*'') False (Lazy NotFound) [] ]"

subsection \<open>How \<open><Routes>\<close> picks a route\<close>

text \<open>
  \<open><Routes>\<close> is react-router's: the table is flattened into branches (a full path and
  the elements from the outermost route to the innermost), the branches are ranked by
  score, and the first branch in that order whose path matches the location is rendered.
  The table has only literal segments and the splat \<open>*\<close>, so parameters (\<open>:id\<close>) are not
  modelled. The location's pathname is decoded before it is matched, and a path pattern
  matches as its regular expression does.

  A string stands for the UTF-8 bytes of the JavaScript string.
\<close>

subsubsection \<open>Decoding the pathname: \<open>decodeURI\<close>\<close>

text \<open>
  An escape is a percent sign and two hexadecimal digits. \<open>decodeURI\<close> throws when a
  percent sign is not followed by two such digits.
\<close>

definition hexDigit :: "char \<Rightarrow> nat option" where
  "hexDigit c =
     (let n = (of_char c :: nat)
      in if 48 \<le> n \<and> n \<le> 57 then Some (n - 48)
         else if 65 \<le> n \<and> n \<le> 70 then Some (n - 55)
         else if 97 \<le> n \<and> n \<le> 102 then Some (n - 87)
         else None)"

datatype token = Plain char | Escaped nat char char

fun tokens :: "string \<Rightarrow> token list option" where
  "tokens [] = Some []"
| "tokens (c # cs) =
     (if c = CHR ''%'' then
        (case cs of
           h1 # h2 # rest \<Rightarrow>
             (case (hexDigit h1, hexDigit h2) of
                (Some a, Some b) \<Rightarrow>
                  map_option ((#) (Escaped (16 * a + b) h1 h2)) (tokens rest)
              | _ \<Rightarrow> None)
         | _ \<Rightarrow> None)
      else map_option ((#) (Plain c)) (tokens cs))"

text \<open>The characters that \<open>decodeURI\<close> leaves escaped.\<close>

definition reservedSet :: string where
  "reservedSet = '';/?:@&=+$,#''"

text \<open>The number of leading one bits of an octet (5 stands for 5 or more).\<close>

definition leadingOnes :: "nat \<Rightarrow> nat" where
  "leadingOnes b =
     (if b < 128 then 0 else if b < 192 then 1 else if b < 224 then 2
      else if b < 240 then 3 else if b < 248 then 4 else 5)"

fun escapedOctets :: "token list \<Rightarrow> nat list option" where
  "escapedOctets [] = Some []"
| "escapedOctets (Escaped b h1 h2 # ts) = map_option ((#) b) (escapedOctets ts)"
| "escapedOctets (Plain c # ts) = None"

definition continuation :: "nat \<Rightarrow> bool" where
  "continuation b = (128 \<le> b \<and> b \<le> 191)"

text \<open>
  The octets of one code point in well-formed UTF-8: no overlong form, no surrogate,
  nothing beyond U+10FFFF.
\<close>

fun validUtf8 :: "nat list \<Rightarrow> bool" where
  "validUtf8 [b0, b1] = (194 \<le> b0 \<and> b0 \<le> 223 \<and> continuation b1)"
| "validUtf8 [b0, b1, b2] =
     ((b0 = 224 \<and> 160 \<le> b1 \<and> b1 \<le> 191
       \<or> 225 \<le> b0 \<and> b0 \<le> 236 \<and> continuation b1
       \<or> b0 = 237 \<and> 128 \<le> b1 \<and> b1 \<le> 159
       \<or> 238 \<le> b0 \<and> b0 \<le> 239 \<and> continuation b1)
      \<and> continuation b2)"
| "validUtf8 [b0, b1, b2, b3] =
     ((b0 = 240 \<and> 144 \<le> b1 \<and> b1 \<le> 191
       \<or> 241 \<le> b0 \<and> b0 \<le> 243 \<and> continuation b1
       \<or> b0 = 244 \<and> 128 \<le> b1 \<and> b1 \<le> 143)
      \<and> continuation b2 \<and> continuation b3)"
| "validUtf8 bs = False"

text \<open>
  An escaped octet below 128 is its character, unless that is reserved: then the escape
  stays as written. An escaped octet from 128 on opens the UTF-8 form of one code point,
  whose other octets must be escapes too; \<open>decodeURI\<close> throws when they are not, or when
  the octets are not well-formed.
\<close>

function decodeTokens :: "token list \<Rightarrow> string option" where
  "decodeTokens [] = Some []"
| "decodeTokens (Plain c # ts) = map_option ((#) c) (decodeTokens ts)"
| "decodeTokens (Escaped b h1 h2 # ts) =
     (if b < 128 then
        (if char_of b \<in> set reservedSet
         then map_option (\<lambda>r. CHR ''%'' # h1 # h2 # r) (decodeTokens ts)
         else map_option ((#) (char_of b)) (decodeTokens ts))
      else if leadingOnes b = 1 \<or> 4 < leadingOnes b then None
      else
        (case escapedOctets (take (leadingOnes b - 1) ts) of
           None \<Rightarrow> None
         | Some octets \<Rightarrow>
             if length octets = leadingOnes b - 1 \<and> validUtf8 (b # octets)
             then map_option ((@) (map char_of (b # octets)))
                    (decodeTokens (drop (leadingOnes b - 1) ts))
             else None))"
  by pat_completeness auto
termination
  by (relation "measure length") auto

text \<open>\<open>decodeURI\<close>: \<open>None\<close> is the \<open>URIError\<close> it throws.\<close>

definition decodeURI :: "string \<Rightarrow> string option" where
  "decodeURI s = (case tokens s of None \<Rightarrow> None | Some ts \<Rightarrow> decodeTokens ts)"

text \<open>\<open>safelyDecodeURI\<close>: the pathname as it is when \<open>decodeURI\<close> throws.\<close>

definition safelyDecodeURI :: "string \<Rightarrow> string" where
  "safelyDecodeURI s = (case decodeURI s of None \<Rightarrow> s | Some d \<Rightarrow> d)"

text \<open>
  The pathname that the branches are matched against: \<open>location.pathname || "/"\<close>,
  decoded.
\<close>

definition decodedPathname :: "string \<Rightarrow> string" where
  "decodedPathname pathname = safelyDecodeURI (if pathname = [] then ''/'' else pathname)"

subsubsection \<open>Ranking and matching the branches\<close>

fun collapse_slashes :: "string \<Rightarrow> string" where
  "collapse_slashes (a # b # cs) =
     (if a = CHR ''/'' \<and> b = CHR ''/'' then collapse_slashes (b # cs)
      else a # collapse_slashes (b # cs))"
| "collapse_slashes cs = cs"

definition joinPaths :: "string \<Rightarrow> string \<Rightarrow> string" where
  "joinPaths a b = collapse_slashes (a @ ''/'' @ b)"

fun split_slash :: "string \<Rightarrow> string list" where
  "split_slash [] = [[]]"
| "split_slash (c # cs) =
     (if c = CHR ''/'' then [] # split_slash cs
      else (case split_slash cs of [] \<Rightarrow> [[c]] | w # ws \<Rightarrow> (c # w) # ws))"

text \<open>
  The score of a branch: the number of segments, minus 2 when a segment is the splat,
  plus 2 for an index route, plus 1 for each empty and 10 for each literal segment.
\<close>

definition computeScore :: "string \<Rightarrow> bool \<Rightarrow> int" where
  "computeScore path index =
     (let segments = split_slash path;
          initialScore = int (length segments)
            + (if list_ex (\<lambda>s. s = ''*'') segments then - 2 else 0)
            + (if index then 2 else 0)
      in foldl (\<lambda>score segment. score + (if segment = [] then 1 else 10)) initialScore
           (filter (\<lambda>s. s \<noteq> ''*'') segments))"

record branch =
  b_path :: string
  b_score :: int
  b_elements :: "element list"

text \<open>Child routes are flattened before their parent; a route with neither path nor index is no branch.\<close>

fun flattenRoutes :: "string \<Rightarrow> element list \<Rightarrow> route \<Rightarrow> branch list" where
  "flattenRoutes parentPath parents (Route p index el children) =
     (let path = joinPaths parentPath (case p of None \<Rightarrow> [] | Some q \<Rightarrow> q);
          els = parents @ [el]
      in concat (map (flattenRoutes path els) children)
         @ (if p = None \<and> \<not> index then []
            else [\<lparr> b_path = path, b_score = computeScore path index, b_elements = els \<rparr>]))"

text \<open>Higher scores first; branches of equal score keep their order (the sort is stable).\<close>

definition rankRouteBranches :: "branch list \<Rightarrow> branch list" where
  "rankRouteBranches bs = sort_key (\<lambda>b. - b_score b) bs"

definition lower :: "char \<Rightarrow> char" where
  "lower c =
     (let n = (of_char c :: nat) in if 65 \<le> n \<and> n \<le> 90 then char_of (n + 32) else c)"

definition strip_slashes :: "string \<Rightarrow> string" where
  "strip_slashes s = rev (dropWhile (\<lambda>c. c = CHR ''/'') (rev s))"

text \<open>
  The line terminators, which the dot of a regular expression does not match: line
  feed, carriage return, U+2028 and U+2029.
\<close>

fun hasLineTerminator :: "string \<Rightarrow> bool" where
  "hasLineTerminator [] = False"
| "hasLineTerminator (c # cs) =
     (of_char c = (10 :: nat) \<or> of_char c = (13 :: nat)
      \<or> (of_char c = (226 :: nat) \<and>
          (map of_char (take 2 cs) = [128, 168 :: nat]
           \<or> map of_char (take 2 cs) = [128, 169 :: nat]))
      \<or> hasLineTerminator cs)"

text \<open>
  A pathname starts with a slash. The splat branch \<open>/*\<close> has the expression \<open>^/(.*)$\<close>: it
  matches the pathnames that hold no line terminator. A literal path \<open>p\<close> has the
  expression \<open>^p/*$\<close>, case ignored: it matches the pathnames equal to it up to case and
  trailing slashes.
\<close>

definition matchPath :: "string \<Rightarrow> string \<Rightarrow> bool" where
  "matchPath pattern pathname =
     (take 1 pathname = ''/'' \<and>
      (if pattern = ''/*'' then \<not> hasLineTerminator pathname
       else map lower (strip_slashes pathname) = map lower (strip_slashes pattern)))"

definition matchRoutes :: "route list \<Rightarrow> string \<Rightarrow> element list option" where
  "matchRoutes routes pathname =
     map_option b_elements
       (find (\<lambda>b. matchPath (b_path b) (decodedPathname pathname))
          (rankRouteBranches (concat (map (flattenRoutes [] []) routes))))"

text \<open>No match renders nothing; a match renders the outermost element, the others through outlets.\<close>

definition renderMatches :: "'v AuthState \<Rightarrow> element list option \<Rightarrow> rendered" where
  "renderMatches state m =
     (case m of None \<Rightarrow> Nothing | Some [] \<Rightarrow> Nothing | Some (e # es) \<Rightarrow> render state e es)"

definition AppRouter :: "'v AuthState \<Rightarrow> string \<Rightarrow> rendered" where
  "AppRouter state pathname = renderMatches state (matchRoutes appRoutes pathname)"



section \<open>Error boundary: \<open>src/components/common/ErrorBoundary.tsx\<close>\<close>

text \<open>
  A \<open>ReactNode\<close> is an object (an element, a portal, an iterable), a string, a number, a
  boolean, \<open>null\<close> or \<open>undefined\<close>; an optional prop that is not supplied is \<open>undefined\<close>.
  Numbers are taken as integers (\<open>NaN\<close> is left out).
\<close>

datatype 'e ReactNode =
  RElement 'e | RText string | RNumber int | RBoolean bool | RNull | RUndefined

text \<open>The test that \<open>if (node)\<close> makes.\<close>

fun truthy :: "'e ReactNode \<Rightarrow> bool" where
  "truthy (RElement e) = True"
| "truthy (RText s) = (s \<noteq> [])"
| "truthy (RNumber n) = (n \<noteq> 0)"
| "truthy (RBoolean b) = b"
| "truthy RNull = False"
| "truthy RUndefined = False"

record 'e Props =
  children :: "'e ReactNode"
  fallback :: "'e ReactNode"

record Error =
  message :: string
  stack :: "string option"

record State =
  hasError :: bool
  error :: "Error option"

definition init_State :: State where
  "init_State = \<lparr> hasError = False, error = None \<rparr>"

definition getDerivedStateFromError :: "Error \<Rightarrow> State" where
  "getDerivedStateFromError e = \<lparr> hasError = True, error = Some e \<rparr>"

text \<open>
  The two handlers. \<open>handleReset\<close> calls \<open>setState({hasError: false, error: undefined})\<close>,
  after which the boundary renders again; \<open>handleReload\<close> calls
  \<open>window.location.reload()\<close>, which ends the running application.
\<close>

datatype handler = HandleReload | HandleReset

datatype after = Rerender State | PageReload

definition handleReset :: "State \<Rightarrow> after" where
  "handleReset st = Rerender \<lparr> hasError = False, error = None \<rparr>"

definition handleReload :: "State \<Rightarrow> after" where
  "handleReload st = PageReload"

fun onClick :: "handler \<Rightarrow> State \<Rightarrow> after" where
  "onClick HandleReload st = handleReload st"
| "onClick HandleReset st = handleReset st"

text \<open>
  What \<open>render\<close> returns: a node handed through, or the failure screen. Of the failure
  screen the model keeps the error details (shown in a development build only: the
  message, and the stack when it is a non-empty string) and the buttons in their order,
  each with its label and handler; the heading and the apology are fixed text.
\<close>

datatype 'e view =
    Node "'e ReactNode"
  | FailureScreen "(string \<times> string option) option" "(string \<times> handler) list"

definition errorDetails :: "bool \<Rightarrow> Error option \<Rightarrow> (string \<times> string option) option" where
  "errorDetails DEV err =
     (case err of
        None \<Rightarrow> None
      | Some e \<Rightarrow>
          if DEV
          then Some (message e, case stack e of None \<Rightarrow> None
                                | Some s \<Rightarrow> if s \<noteq> [] then Some s else None)
          else None)"

text \<open>\<open>ErrorBoundary.render\<close>; \<open>DEV\<close> is \<open>import.meta.env.DEV\<close>.\<close>

definition ErrorBoundary_render :: "bool \<Rightarrow> 'e Props \<Rightarrow> State \<Rightarrow> 'e view" where
  "ErrorBoundary_render DEV props st =
     (if hasError st then
        (if truthy (fallback props) then Node (fallback props)
         else FailureScreen (errorDetails DEV (error st))
                [(''Refresh Page'', HandleReload), (''Try Again'', HandleReset)])
      else Node (children props))"

section \<open>Sample values\<close>

definition user1 :: "string User" where
  "user1 = [''id'' \<mapsto> ''1'', ''name'' \<mapsto> ''Ada'', ''email'' \<mapsto> ''ada@example.org'']"

definition emailPatch :: "string User" where
  "emailPatch = [''email'' \<mapsto> ''ada@example.com'']"

definition emptyStore :: "string Store" where
  "emptyStore = create NoItem"



definition loggedOut :: "string AuthState" where
  "loggedOut = initialState"

definition loggedIn :: "string AuthState" where
  "loggedIn = \<lparr> user = Some user1, isAuthenticated = True, token = Some ''tok'' \<rparr>"

definition zeroFallback :: "unit Props" where
  "zeroFallback = \<lparr> children = RText ''app'', fallback = RNumber 0 \<rparr>"

definition noFallback :: "unit Props" where
  "noFallback = \<lparr> children = RText ''app'', fallback = RUndefined \<rparr>"

definition textFallback :: "unit Props" where
  "textFallback = \<lparr> children = RText ''app'', fallback = RText ''failed'' \<rparr>"

definition captured :: State where
  "captured = getDerivedStateFromError \<lparr> message = ''boom'', stack = None \<rparr>"

section \<open>Facts about the session store\<close>

lemma session_persist_set: "session (persist_set p store) = set_state p (session store)"
  by (simp add: persist_set_def Let_def)

lemma localStorage_persist_set:
  "localStorage (persist_set p store) = setItem (set_state p (session store))"
  by (simp add: persist_set_def Let_def)

lemma session_create:
  "session (create it) =
     (case getItem it of Inl e \<Rightarrow> initialState
      | Inr d \<Rightarrow> merge (migratedState d) initialState)"
  by (simp add: create_def Let_def split: sum.splits)

lemma session_login:
  "session (login u t store) = \<lparr> user = Some u, isAuthenticated = True, token = Some t \<rparr>"
  by (simp add: login_def session_persist_set set_state_def)

lemma localStorage_login:
  "localStorage (login u t store) =
     Item \<lparr> sv_state = \<lparr> user_key = Some (Some u), isAuthenticated_key = None,
                          token_key = Some (Some t) \<rparr>,
            sv_version = 0 \<rparr>"
  by (simp add: login_def localStorage_persist_set set_state_def setItem_def partialize_def)

lemma session_logout: "session (logout store) = initialState"
  by (simp add: logout_def session_persist_set set_state_def initialState_def)

lemma session_create_NoItem: "session (create NoItem) = initialState"
  by (simp add: session_create getItem_def migratedState_def merge_def)

lemma session_create_Item:
  "session (create (Item v)) =
     (if sv_version v \<noteq> 0 then initialState else set_state (sv_state v) initialState)"
  by (simp add: session_create getItem_def migratedState_def merge_def)

lemma well_formed_iff: "well_formed it \<longleftrightarrow> (\<exists>s. it = setItem s)"
proof
  assume "well_formed it"
  then obtain v u t where v: "it = Item v" "sv_version v = 0" "user_key (sv_state v) = Some u"
    "token_key (sv_state v) = Some t" "isAuthenticated_key (sv_state v) = None"
    by (auto simp: well_formed_def split: item.splits)
  have "it = setItem \<lparr> user = u, isAuthenticated = False, token = t \<rparr>"
    using v by (simp add: setItem_def partialize_def)
  then show "\<exists>s. it = setItem s" ..
next
  assume "\<exists>s. it = setItem s"
  then show "well_formed it"
    by (auto simp: well_formed_def setItem_def partialize_def)
qed

text \<open>The three actions keep the invariant, and the store created over empty storage has it.\<close>

lemma session_invariant_initial: "session_invariant (session (create NoItem))"
  by (simp add: session_create_NoItem session_invariant_def initialState_def)

lemma session_invariant_login: "session_invariant (session (login u t store))"
  by (simp add: session_login session_invariant_def)

lemma session_invariant_logout: "session_invariant (session (logout store))"
  by (simp add: session_logout session_invariant_def initialState_def)

lemma session_invariant_updateUser:
  "session_invariant (session store) \<Longrightarrow> session_invariant (session (updateUser p store))"
  by (auto simp: updateUser_def session_persist_set set_state_def session_invariant_def
           split: option.splits)

text \<open>So does every sequence of operations that holds no restart.\<close>

lemma session_invariant_run:
  "list_all (\<lambda>x. x \<noteq> RestartOp) xs \<Longrightarrow> session_invariant (session store)
     \<Longrightarrow> session_invariant (session (run xs store))"
proof (induction xs arbitrary: store)
  case Nil
  then show ?case by simp
next
  case (Cons x xs)
  from Cons.prems have "session_invariant (session (apply_operation x store))"
    by (cases x)
       (simp_all add: session_invariant_login session_invariant_logout
          session_invariant_updateUser)
  with Cons show ?case by simp
qed

section \<open>The claims about the session store\<close>

text \<open>
  Claim C1: in every session state reached by login, logout, updateUser and the
  rehydration at boot, \<open>isAuthenticated\<close> holds exactly when the user and the token are
  both present. The store does not keep this: after \<open>login({id: '1', ...}, 'tok')\<close> and a
  restart of the process, the rehydrated session holds the user and the token while
  \<open>isAuthenticated\<close> is false. (The lemmas above show that login, logout and updateUser
  keep the invariant; the rehydration is what loses it.)
\<close>

theorem invariant_lost_on_rehydration:
  "session (run [LoginOp user1 ''tok'', RestartOp] (create NoItem)) =
     \<lparr> user = Some user1, isAuthenticated = False, token = Some ''tok'' \<rparr>
   \<and> \<not> session_invariant (session (run [LoginOp user1 ''tok'', RestartOp] (create NoItem)))"
  by (simp add: restart_def localStorage_login session_create_Item set_state_def
        initialState_def session_invariant_def)

text \<open>
  Claim C2: login followed by a restart gives back the user, the token and
  \<open>isAuthenticated = true\<close>, only \<open>{token, user}\<close> being stored. What the store does, for
  every user, token and earlier store: it writes exactly the keys \<open>user\<close> and \<open>token\<close>
  with version 0, and the session rehydrated from them holds the user and the token
  with \<open>isAuthenticated = false\<close>.
\<close>

theorem login_restart_roundtrip:
  "localStorage (login u t store) =
     Item \<lparr> sv_state = \<lparr> user_key = Some (Some u), isAuthenticated_key = None,
                          token_key = Some (Some t) \<rparr>,
            sv_version = 0 \<rparr>
   \<and> session (restart (login u t store)) =
       \<lparr> user = Some u, isAuthenticated = False, token = Some t \<rparr>"
  by (simp add: restart_def localStorage_login session_create_Item set_state_def
        initialState_def)

text \<open>
  Against claim C4 as stated: a login with the empty token is not rejected; the store
  enters a state with \<open>isAuthenticated = true\<close>.
\<close>

theorem login_empty_token_counterexample:
  "isAuthenticated (session (login user1 [] emptyStore))"
  by (simp add: session_login)

text \<open>
  Claim C4, amended: login makes no check of its arguments. For every user and every
  token, the empty one included, and from every store, it sets that user, that token and
  \<open>isAuthenticated = true\<close>.
\<close>

theorem login_no_validation:
  "session (login u t store) = \<lparr> user = Some u, isAuthenticated = True, token = Some t \<rparr>"
  by (simp add: login_def session_persist_set set_state_def)

text \<open>
  Claim C5: for every store and every partial user record \<open>p\<close>: with no user present,
  updateUser leaves the whole store as it is; with a user \<open>u\<close> present, the user becomes
  \<open>u\<close> overridden by \<open>p\<close>, so that a field that \<open>p\<close> does not hold keeps its value and a
  field that \<open>p\<close> holds takes the value from \<open>p\<close>; in both cases the token and
  \<open>isAuthenticated\<close> keep their values.
\<close>

theorem updateUser_frame:
  "(user (session store) = None \<longrightarrow> updateUser p store = store)
   \<and> (\<forall>u. user (session store) = Some u \<longrightarrow>
        user (session (updateUser p store)) = Some (u ++ p)
        \<and> (\<forall>k. p k = None \<longrightarrow> (u ++ p) k = u k)
        \<and> (\<forall>k v. p k = Some v \<longrightarrow> (u ++ p) k = Some v))
   \<and> token (session (updateUser p store)) = token (session store)
   \<and> isAuthenticated (session (updateUser p store)) = isAuthenticated (session store)"
  by (auto simp: updateUser_def session_persist_set set_state_def map_add_def
           split: option.splits)

theorem updateUser_frame_witness:
  "user (session emptyStore) = None
   \<and> updateUser emailPatch emptyStore = emptyStore
   \<and> user (session (login user1 ''tok'' emptyStore)) = Some user1
   \<and> user (session (updateUser emailPatch (login user1 ''tok'' emptyStore))) = Some (user1 ++ emailPatch)
   \<and> emailPatch ''name'' = None
   \<and> (user1 ++ emailPatch) ''name'' = Some ''Ada''
   \<and> emailPatch ''email'' = Some ''ada@example.com''
   \<and> (user1 ++ emailPatch) ''email'' = Some ''ada@example.com''
   \<and> token (session (updateUser emailPatch (login user1 ''tok'' emptyStore))) = Some ''tok''
   \<and> isAuthenticated (session (updateUser emailPatch (login user1 ''tok'' emptyStore)))"
proof -
  have a: "user (session emptyStore) = None"
    by (simp add: emptyStore_def session_create_NoItem initialState_def)
  have b: "user (session (login user1 ''tok'' emptyStore)) = Some user1"
    by (simp add: session_login)
  have c: "emailPatch ''name'' = None" "emailPatch ''email'' = Some ''ada@example.com''"
    by (simp_all add: emailPatch_def)
  have d: "user1 ''name'' = Some ''Ada''"
    by (simp add: user1_def)
  note t1 = updateUser_frame [of emptyStore emailPatch]
  note t2 = updateUser_frame [of "login user1 ''tok'' emptyStore" emailPatch]
  from t1 a have e: "updateUser emailPatch emptyStore = emptyStore" by blast
  from t2 b have f: "user (session (updateUser emailPatch (login user1 ''tok'' emptyStore))) = Some (user1 ++ emailPatch)"
    "(user1 ++ emailPatch) ''name'' = user1 ''name''"
    "(user1 ++ emailPatch) ''email'' = Some ''ada@example.com''"
    using c by blast+
  from t2 have g: "token (session (updateUser emailPatch (login user1 ''tok'' emptyStore))) = Some ''tok''"
    "isAuthenticated (session (updateUser emailPatch (login user1 ''tok'' emptyStore)))"
    by (simp_all add: session_login)
  from a b c d e f g show ?thesis by simp
qed




section \<open>Facts about the route table\<close>

lemma render_ProtectedRouteEl:
  "render state (ProtectedRouteEl c) rest =
     (if isAuthenticated state then render state c rest else Redirect ''/login'')"
  by (simp add: render.simps(3) ProtectedRoute_def)

lemma render_PublicRouteEl:
  "render state (PublicRouteEl c) rest =
     (if isAuthenticated state then Redirect ''/dashboard'' else render state c rest)"
  by (simp add: render.simps(4) PublicRoute_def)

text \<open>The ranked branches of the table.\<close>

lemma app_branches:
  "rankRouteBranches (concat (map (flattenRoutes [] []) appRoutes)) =
     [ \<lparr> b_path = ''/login'', b_score = 13, b_elements = [PublicRouteEl (Lazy Login)] \<rparr>,
       \<lparr> b_path = ''/dashboard'', b_score = 13,
         b_elements = [ProtectedRouteEl LayoutEl, Lazy Dashboard] \<rparr>,
       \<lparr> b_path = ''/users'', b_score = 13,
         b_elements = [ProtectedRouteEl LayoutEl, Lazy Users] \<rparr>,
       \<lparr> b_path = ''/settings'', b_score = 13,
         b_elements = [ProtectedRouteEl LayoutEl, Lazy Settings] \<rparr>,
       \<lparr> b_path = ''/'', b_score = 6,
         b_elements = [ProtectedRouteEl LayoutEl, Navigate ''/dashboard'' True] \<rparr>,
       \<lparr> b_path = ''/'', b_score = 4, b_elements = [ProtectedRouteEl LayoutEl] \<rparr>,
       \<lparr> b_path = ''/*'', b_score = 1, b_elements = [Lazy NotFound] \<rparr> ]"
  by code_simp


lemma matchRoutes_app:
  "matchRoutes appRoutes pathname =
     (if matchPath ''/login'' (decodedPathname pathname) then Some [PublicRouteEl (Lazy Login)]
      else if matchPath ''/dashboard'' (decodedPathname pathname)
        then Some [ProtectedRouteEl LayoutEl, Lazy Dashboard]
      else if matchPath ''/users'' (decodedPathname pathname)
        then Some [ProtectedRouteEl LayoutEl, Lazy Users]
      else if matchPath ''/settings'' (decodedPathname pathname)
        then Some [ProtectedRouteEl LayoutEl, Lazy Settings]
      else if matchPath ''/'' (decodedPathname pathname)
        then Some [ProtectedRouteEl LayoutEl, Navigate ''/dashboard'' True]
      else if matchPath ''/*'' (decodedPathname pathname) then Some [Lazy NotFound]
      else None)"
  by (simp add: matchRoutes_def app_branches)


text \<open>What the table renders, by the first declared path that matches.\<close>

lemma AppRouter_cases:
  "AppRouter state pathname =
     (if matchPath ''/login'' (decodedPathname pathname)
        then (if isAuthenticated state then Redirect ''/dashboard'' else Mounted Login)
      else if matchPath ''/dashboard'' (decodedPathname pathname)
        then (if isAuthenticated state then LayoutWith (Mounted Dashboard) else Redirect ''/login'')
      else if matchPath ''/users'' (decodedPathname pathname)
        then (if isAuthenticated state then LayoutWith (Mounted Users) else Redirect ''/login'')
      else if matchPath ''/settings'' (decodedPathname pathname)
        then (if isAuthenticated state then LayoutWith (Mounted Settings) else Redirect ''/login'')
      else if matchPath ''/'' (decodedPathname pathname)
        then (if isAuthenticated state then LayoutWith (Redirect ''/dashboard'')
              else Redirect ''/login'')
      else if matchPath ''/*'' (decodedPathname pathname) then Mounted NotFound
      else Nothing)"
  by (simp add: AppRouter_def renderMatches_def matchRoutes_app
        render_ProtectedRouteEl render_PublicRouteEl Layout_def)


lemma decodedPathname_examples:
  "decodedPathname ''/'' = ''/''"
  "decodedPathname ''/dashboard'' = ''/dashboard''"
  "decodedPathname ''/login'' = ''/login''"
  "decodedPathname ''/nope'' = ''/nope''"
  "decodedPathname [] = ''/''"
  "decodedPathname ''/%64ashboard'' = ''/dashboard''"
  by code_simp+

lemma matchPath_examples:
  "matchPath ''/'' ''/''"
  "\<not> matchPath ''/login'' ''/''"
  "\<not> matchPath ''/dashboard'' ''/''"
  "\<not> matchPath ''/users'' ''/''"
  "\<not> matchPath ''/settings'' ''/''"
  "matchPath ''/dashboard'' ''/dashboard''"
  "\<not> matchPath ''/login'' ''/dashboard''"
  "matchPath ''/login'' ''/login''"
  by code_simp+

section \<open>The claims about routing\<close>

text \<open>
  Claim C3: the decision of the route guard, for every session and whatever the guard
  is wrapped around. The guard of a protected screen (\<open>ProtectedRoute\<close>) returns the
  navigation to \<open>/login\<close> when \<open>isAuthenticated\<close> is false and its children when it is
  true; the guard of a public screen (\<open>PublicRoute\<close>) returns the navigation to
  \<open>/dashboard\<close> when \<open>isAuthenticated\<close> is true and its children when it is false; and
  rendering the guard renders accordingly. Both targets are literal paths: the guards
  take the session and their children, and no location or history.
\<close>

theorem route_guard_table:
  "ProtectedRoute (state\<lparr>isAuthenticated := False\<rparr>) c = Navigate ''/login'' True
   \<and> ProtectedRoute (state\<lparr>isAuthenticated := True\<rparr>) c = c
   \<and> PublicRoute (state\<lparr>isAuthenticated := True\<rparr>) c = Navigate ''/dashboard'' True
   \<and> PublicRoute (state\<lparr>isAuthenticated := False\<rparr>) c = c
   \<and> render (state\<lparr>isAuthenticated := False\<rparr>) (ProtectedRouteEl c) rest = Redirect ''/login''
   \<and> render (state\<lparr>isAuthenticated := True\<rparr>) (ProtectedRouteEl c) rest
       = render (state\<lparr>isAuthenticated := True\<rparr>) c rest
   \<and> render (state\<lparr>isAuthenticated := True\<rparr>) (PublicRouteEl c) rest = Redirect ''/dashboard''
   \<and> render (state\<lparr>isAuthenticated := False\<rparr>) (PublicRouteEl c) rest
       = render (state\<lparr>isAuthenticated := False\<rparr>) c rest"
  by (simp add: ProtectedRoute_def PublicRoute_def render_ProtectedRouteEl render_PublicRouteEl)




text \<open>
  Claim C7: a guard that redirects renders the redirect in place of its children, so no
  loader below it is invoked, whatever the children and the matched child routes are.
  For the table: in a session that is not authenticated no pathname invokes the loader
  of Dashboard, Users or Settings, and in an authenticated session no pathname invokes
  the loader of Login.
\<close>

theorem redirect_invokes_no_loader:
  "(\<not> isAuthenticated state \<longrightarrow>
      render state (ProtectedRouteEl c) rest = Redirect ''/login''
      \<and> invoked (render state (ProtectedRouteEl c) rest) = [])
   \<and> (isAuthenticated state \<longrightarrow>
      render state (PublicRouteEl c) rest = Redirect ''/dashboard''
      \<and> invoked (render state (PublicRouteEl c) rest) = [])
   \<and> (\<not> isAuthenticated state \<longrightarrow>
      Dashboard \<notin> set (invoked (AppRouter state pathname))
      \<and> Users \<notin> set (invoked (AppRouter state pathname))
      \<and> Settings \<notin> set (invoked (AppRouter state pathname)))
   \<and> (isAuthenticated state \<longrightarrow> Login \<notin> set (invoked (AppRouter state pathname)))"
  by (simp add: render_ProtectedRouteEl render_PublicRouteEl AppRouter_cases)

theorem redirect_invokes_no_loader_witness:
  "\<not> isAuthenticated loggedOut
   \<and> matchRoutes appRoutes ''/dashboard'' = Some [ProtectedRouteEl LayoutEl, Lazy Dashboard]
   \<and> render loggedOut (ProtectedRouteEl LayoutEl) [Lazy Dashboard] = Redirect ''/login''
   \<and> Dashboard \<notin> set (invoked (AppRouter loggedOut ''/dashboard''))
   \<and> isAuthenticated loggedIn
   \<and> render loggedIn (PublicRouteEl (Lazy Login)) [] = Redirect ''/dashboard''
   \<and> Login \<notin> set (invoked (AppRouter loggedIn ''/login''))"
proof -
  have a: "\<not> isAuthenticated loggedOut"
    by (simp add: loggedOut_def initialState_def)
  have b: "isAuthenticated loggedIn"
    by (simp add: loggedIn_def)
  have m: "matchRoutes appRoutes ''/dashboard'' = Some [ProtectedRouteEl LayoutEl, Lazy Dashboard]"
    by (simp add: matchRoutes_app decodedPathname_examples matchPath_examples)
  from redirect_invokes_no_loader
         [of loggedOut LayoutEl "[Lazy Dashboard]" "''/dashboard''"] a
  have c: "render loggedOut (ProtectedRouteEl LayoutEl) [Lazy Dashboard] = Redirect ''/login''"
    "Dashboard \<notin> set (invoked (AppRouter loggedOut ''/dashboard''))"
    by blast+
  from redirect_invokes_no_loader [of loggedIn "Lazy Login" "[]" "''/login''"] b
  have d: "render loggedIn (PublicRouteEl (Lazy Login)) [] = Redirect ''/dashboard''"
    "Login \<notin> set (invoked (AppRouter loggedIn ''/login''))"
    by blast+
  from a b m c d show ?thesis by blast
qed

text \<open>
  Claim C10: the pathname \<open>/\<close> matches the layout route with its index route. In an
  authenticated session the guard lets the layout render, and its outlet holds the
  index route's navigation to \<open>/dashboard\<close>; in any other session the guard navigates to
  \<open>/login\<close>. In both no lazy page is mounted.
\<close>

theorem root_path_redirects:
  "matchRoutes appRoutes ''/'' = Some [ProtectedRouteEl LayoutEl, Navigate ''/dashboard'' True]
   \<and> AppRouter state ''/'' =
       (if isAuthenticated state then LayoutWith (Redirect ''/dashboard'') else Redirect ''/login'')
   \<and> invoked (AppRouter state ''/'') = []"
  by (simp add: AppRouter_cases matchRoutes_app decodedPathname_examples matchPath_examples)

section \<open>The claim about the error boundary\<close>

text \<open>
  Against claim C9 as stated: with an error captured and the fallback \<open>0\<close> supplied, the
  boundary does not render that fallback.
\<close>

theorem falsy_fallback_counterexample:
  "hasError captured \<and> fallback zeroFallback \<noteq> RUndefined
   \<and> ErrorBoundary_render False zeroFallback captured \<noteq> Node (fallback zeroFallback)"
  by (simp add: captured_def getDerivedStateFromError_def zeroFallback_def
        ErrorBoundary_render_def)

text \<open>
  Claim C9, amended: with no error captured the boundary renders its children as they
  are; with an error captured it renders the fallback when the fallback is truthy, and
  otherwise (no fallback, or one of \<open>0\<close>, the empty string, \<open>false\<close>, \<open>null\<close>) the failure
  screen, whose buttons are exactly a reload and a retry. The retry only clears the
  captured error: whatever was captured, the state it sets is the state of a newly
  constructed boundary, which keeps nothing of the failure, and in that state the
  boundary renders its children as the props give them, so the subtree that was taken
  out when the error was captured is mounted anew; the handler takes nothing of the
  failed navigation and starts none. The reload restarts the page.
\<close>

theorem ErrorBoundary_render_cases:
  "(\<not> hasError st \<longrightarrow> ErrorBoundary_render DEV props st = Node (children props))
   \<and> (hasError st \<and> truthy (fallback props) \<longrightarrow>
        ErrorBoundary_render DEV props st = Node (fallback props))
   \<and> (hasError st \<and> \<not> truthy (fallback props) \<longrightarrow>
        ErrorBoundary_render DEV props st =
          FailureScreen (errorDetails DEV (error st))
            [(''Refresh Page'', HandleReload), (''Try Again'', HandleReset)])
   \<and> onClick HandleReset st = Rerender \<lparr> hasError = False, error = None \<rparr>
   \<and> onClick HandleReset st = Rerender init_State
   \<and> (\<forall>st'. onClick HandleReset st = Rerender st' \<longrightarrow>
         ErrorBoundary_render DEV props st' = Node (children props)
         \<and> ErrorBoundary_render DEV props st' = ErrorBoundary_render DEV props init_State)
   \<and> onClick HandleReload st = PageReload"
  by (simp add: ErrorBoundary_render_def handleReset_def handleReload_def init_State_def)

theorem ErrorBoundary_render_cases_witness:
  "\<not> hasError init_State
   \<and> ErrorBoundary_render False noFallback init_State = Node (RText ''app'')
   \<and> hasError captured \<and> truthy (fallback textFallback)
   \<and> ErrorBoundary_render False textFallback captured = Node (RText ''failed'')
   \<and> \<not> truthy (fallback noFallback)
   \<and> ErrorBoundary_render False noFallback captured =
        FailureScreen None [(''Refresh Page'', HandleReload), (''Try Again'', HandleReset)]
   \<and> onClick HandleReset captured = Rerender init_State
   \<and> ErrorBoundary_render False noFallback init_State = Node (children noFallback)"
proof -
  have a: "\<not> hasError init_State" by (simp add: init_State_def)
  have b: "hasError captured" by (simp add: captured_def getDerivedStateFromError_def)
  have c: "truthy (fallback textFallback)" by (simp add: textFallback_def)
  have d: "\<not> truthy (fallback noFallback)" by (simp add: noFallback_def)
  from ErrorBoundary_render_cases [of init_State False noFallback] a
  have e: "ErrorBoundary_render False noFallback init_State = Node (children noFallback)"
    by blast
  from ErrorBoundary_render_cases [of captured False textFallback] b c
  have f: "ErrorBoundary_render False textFallback captured = Node (fallback textFallback)"
    by blast
  from ErrorBoundary_render_cases [of captured False noFallback] b d
  have g: "ErrorBoundary_render False noFallback captured =
      FailureScreen (errorDetails False (error captured))
        [(''Refresh Page'', HandleReload), (''Try Again'', HandleReset)]"
    "onClick HandleReset captured = Rerender init_State"
    by blast+
  from ErrorBoundary_render_cases [of captured False noFallback] g(2)
  have h: "ErrorBoundary_render False noFallback init_State = Node (children noFallback)"
    by blast
  from a b c d e f g h show ?thesis
    by (simp add: noFallback_def textFallback_def errorDetails_def
          captured_def getDerivedStateFromError_def)
qed

end
